theory Spec2Isabelle
  imports Complex_Main
begin

section \<open>Python and numpy primitives used by manual\_sine\_wave.py\<close>

text \<open>
  The exceptions the modelled code can raise: \<open>IndexError\<close> from list indexing and
  \<open>ValueError\<close> from numpy (a negative dimension, shapes that do not broadcast).
\<close>

datatype error = IndexError | ValueError

text \<open>
  The position an index \<open>i\<close> denotes in a Python list: \<open>i\<close> itself from \<open>0\<close> up to the
  length, the length plus \<open>i\<close> for the negative indices down to minus the length, and
  no position otherwise, where a read and an item assignment raise \<open>IndexError\<close>.
\<close>

definition py_index :: "'a list \<Rightarrow> int \<Rightarrow> nat option" where
  "py_index xs i =
     (if 0 \<le> i \<and> i < int (length xs) then Some (nat i)
      else if i < 0 \<and> - int (length xs) \<le> i then Some (nat (int (length xs) + i))
      else None)"

definition py_getitem :: "'a list \<Rightarrow> int \<Rightarrow> error + 'a" where
  "py_getitem xs i = (case py_index xs i of None \<Rightarrow> Inl IndexError | Some j \<Rightarrow> Inr (xs ! j))"

definition py_setitem :: "'a list \<Rightarrow> int \<Rightarrow> 'a \<Rightarrow> error + 'a list" where
  "py_setitem xs i v =
     (case py_index xs i of None \<Rightarrow> Inl IndexError | Some j \<Rightarrow> Inr (xs[j := v]))"

text \<open>
  The slice \<open>xs[:n]\<close>: a fresh list of the first \<open>n\<close> items (all of them when the list is
  shorter); a negative \<open>n\<close> counts the stop from the end. A slice never raises.
\<close>

definition py_slice_to :: "'a list \<Rightarrow> int \<Rightarrow> 'a list" where
  "py_slice_to xs n = take (nat (if n < 0 then int (length xs) + n else n)) xs"

text \<open>The repetition \<open>[x] * n\<close>: \<open>n\<close> copies, none when \<open>n\<close> is not positive.\<close>

definition py_repeat :: "'a \<Rightarrow> int \<Rightarrow> 'a list" where
  "py_repeat x n = replicate (nat n) x"

text \<open>
  A two-dimensional numpy array: its shape and its rows. Samples are IEEE doubles in the
  program; they are idealised as real numbers here, so rounding, \<open>nan\<close> and \<open>inf\<close> are
  not represented (a sample rate of zero, where numpy yields \<open>nan\<close> and \<open>inf\<close>, is
  excluded wherever a theorem speaks about sample values).
\<close>

record ndarray =
  shape0 :: nat
  shape1 :: nat
  rows :: "real list list"

text \<open>\<open>np.zeros((r, c))\<close> raises \<open>ValueError\<close> on a negative dimension.\<close>

definition np_zeros :: "int \<Rightarrow> int \<Rightarrow> error + ndarray" where
  "np_zeros r c =
     (if r < 0 \<or> c < 0 then Inl ValueError
      else Inr \<lparr>shape0 = nat r, shape1 = nat c, rows = replicate (nat r) (replicate (nat c) 0)\<rparr>)"

text \<open>\<open>np.arange(n)\<close>: the numbers \<open>0, 1, ..., n - 1\<close>; empty when \<open>n\<close> is not positive.\<close>

definition np_arange :: "int \<Rightarrow> real list" where
  "np_arange n = map real [0..<nat n]"

text \<open>
  The column assignment \<open>chunk[:, i] = col\<close> for a column index inside the array and a
  one-dimensional \<open>col\<close> with one entry per row.
\<close>

definition set_column :: "ndarray \<Rightarrow> nat \<Rightarrow> real list \<Rightarrow> ndarray" where
  "set_column chunk i col = chunk\<lparr>rows := map2 (\<lambda>row v. row[i := v]) (rows chunk) col\<rparr>"

text \<open>
  The whole-array assignment \<open>outdata[:] = src\<close> between two-dimensional arrays: \<open>src\<close> is
  broadcast to the shape of \<open>outdata\<close> (an axis of length one is repeated), and shapes
  that do not broadcast raise \<open>ValueError\<close>.
\<close>

definition assign_all :: "ndarray \<Rightarrow> ndarray \<Rightarrow> error + ndarray" where
  "assign_all outdata src =
     (if (shape0 src = shape0 outdata \<or> shape0 src = 1) \<and>
         (shape1 src = shape1 outdata \<or> shape1 src = 1)
      then Inr (outdata\<lparr>rows :=
             map (\<lambda>f. map (\<lambda>c. rows src ! (if shape0 src = 1 then 0 else f)
                                          ! (if shape1 src = 1 then 0 else c))
                          [0..<shape1 outdata])
                 [0..<shape0 outdata]\<rparr>)
      else Inl ValueError)"

section \<open>The generator's state\<close>

text \<open>
  \<open>DynamicMultiChannelSineGenerator\<close>: the attributes of the object, the heap of the
  Python list objects its attributes \<open>frequencies\<close> and \<open>amplitudes\<close> refer to, and the
  lines printed so far. The two attributes hold references (addresses), since
  \<open>get_channel_info\<close> hands the referenced objects out. The attributes \<open>thread\<close> and
  \<open>lock\<close> are not part of the model, and neither are \<open>start\<close> and \<open>stop\<close>, which only
  drive the output stream: every method body below runs under the lock, so each is one
  atomic step of the state.
\<close>

type_synonym addr = nat

record state =
  sample_rate :: real
  is_playing :: bool
  num_channels :: int
  frequencies :: addr
  amplitudes :: addr
  available_channels :: int
  heap :: "addr \<Rightarrow> real list"
  next_addr :: addr
  stdout :: "string list"

text \<open>What a method that returns \<open>None\<close> leaves behind: the state, and the exception if it raised.\<close>

datatype outcome = Return state | Raise error state

definition new_list :: "real list \<Rightarrow> state \<Rightarrow> addr \<times> state" where
  "new_list xs s =
     (next_addr s, s\<lparr>heap := (heap s)(next_addr s := xs), next_addr := Suc (next_addr s)\<rparr>)"

definition print_line :: "string \<Rightarrow> state \<Rightarrow> state" where
  "print_line msg s = s\<lparr>stdout := stdout s @ [msg]\<rparr>"

text \<open>The item assignment \<open>obj[i] = v\<close> on the list object at address \<open>a\<close>.\<close>

definition list_setitem :: "state \<Rightarrow> addr \<Rightarrow> int \<Rightarrow> real \<Rightarrow> outcome" where
  "list_setitem s a i v =
     (case py_setitem (heap s a) i v of
        Inl e \<Rightarrow> Raise e s
      | Inr xs \<Rightarrow> Return (s\<lparr>heap := (heap s)(a := xs)\<rparr>))"

section \<open>Channel configuration\<close>

text \<open>
  \<open>get_max_output_channels\<close>. The host's answer to \<open>sd.query_devices(kind='output')\<close> is
  the parameter \<open>dev\<close>: \<open>Some d\<close> when the query returns a device whose
  \<open>max_output_channels\<close> is \<open>d\<close>, \<open>None\<close> when anything inside the \<open>try\<close> block raises
  (the bare \<open>except\<close> catches it).
\<close>

definition get_max_output_channels :: "int option \<Rightarrow> state \<Rightarrow> int \<times> state" where
  "get_max_output_channels dev s =
     (case dev of
        Some d \<Rightarrow> (min d (num_channels s), s)
      | None \<Rightarrow> (2, print_line ''Error querying audio devices. Falling back to 2 channels.'' s))"

definition set_channels :: "int option \<Rightarrow> state \<Rightarrow> int \<Rightarrow> state" where
  "set_channels dev s n =
     (let s1 = s\<lparr>num_channels := n\<rparr>;
          (fa, s2) = new_list (py_repeat 440 n) s1;
          s3 = s2\<lparr>frequencies := fa\<rparr>;
          (aa, s4) = new_list (py_repeat 0.5 n) s3;
          s5 = s4\<lparr>amplitudes := aa\<rparr>;
          (m, s6) = get_max_output_channels dev s5
      in s6\<lparr>available_channels := m\<rparr>)"

text \<open>
  \<open>__init__\<close>: the attributes set before \<open>set_channels\<close> runs, on an empty heap; the four
  attributes \<open>set_channels\<close> assigns do not exist before it and get placeholder values here.
\<close>

definition init :: "int option \<Rightarrow> int \<Rightarrow> real \<Rightarrow> state" where
  "init dev initial_channels rate =
     set_channels dev
       \<lparr>sample_rate = rate, is_playing = False, num_channels = 0, frequencies = 0,
        amplitudes = 0, available_channels = 0, heap = (\<lambda>_. []), next_addr = 0, stdout = []\<rparr>
       initial_channels"

section \<open>Rendering\<close>

text \<open>
  The loop of \<open>generate_chunk\<close> over the channels still to fill: \<open>t\<close> is the time axis,
  and each step reads \<open>amplitudes[i]\<close> and \<open>frequencies[i]\<close> and assigns column \<open>i\<close>.
\<close>

fun fill_channels :: "state \<Rightarrow> real list \<Rightarrow> nat list \<Rightarrow> ndarray \<Rightarrow> error + ndarray" where
  "fill_channels s t [] chunk = Inr chunk"
| "fill_channels s t (i # is) chunk =
     (case py_getitem (heap s (amplitudes s)) (int i) of
        Inl e \<Rightarrow> Inl e
      | Inr a \<Rightarrow>
          (case py_getitem (heap s (frequencies s)) (int i) of
             Inl e \<Rightarrow> Inl e
           | Inr fr \<Rightarrow>
               fill_channels s t is
                 (set_column chunk i (map (\<lambda>tk. a * sin (2 * pi * fr * tk)) t))))"

definition generate_chunk :: "state \<Rightarrow> int \<Rightarrow> error + ndarray" where
  "generate_chunk s num_frames =
     (let t = map (\<lambda>k. k / sample_rate s) (np_arange num_frames)
      in case np_zeros num_frames (available_channels s) of
           Inl e \<Rightarrow> Inl e
         | Inr chunk \<Rightarrow> fill_channels s t [0..<nat (available_channels s)] chunk)"

text \<open>
  \<open>audio_callback\<close>: \<open>status\<close> is \<open>Some\<close> of its printed form when a flag is set (it is
  truthy then), and \<open>time\<close> is whatever the audio subsystem passes. The result is the new
  content of \<open>outdata\<close>, or the exception raised, with the state left behind.
\<close>

definition audio_callback ::
  "state \<Rightarrow> ndarray \<Rightarrow> int \<Rightarrow> 't \<Rightarrow> string option \<Rightarrow> (error + ndarray) \<times> state" where
  "audio_callback s outdata frames time status =
     (let s1 = (case status of Some msg \<Rightarrow> print_line msg s | None \<Rightarrow> s)
      in case generate_chunk s1 frames of
           Inl e \<Rightarrow> (Inl e, s1)
         | Inr chunk \<Rightarrow> (assign_all outdata chunk, s1))"

section \<open>Parameter updates and the state report\<close>

definition set_frequency :: "state \<Rightarrow> int \<Rightarrow> real \<Rightarrow> outcome" where
  "set_frequency s channel frequency =
     (if 0 \<le> channel \<and> channel < num_channels s
      then list_setitem s (frequencies s) channel frequency
      else Return s)"

definition set_amplitude :: "state \<Rightarrow> int \<Rightarrow> real \<Rightarrow> outcome" where
  "set_amplitude s channel amplitude =
     (if 0 \<le> channel \<and> channel < num_channels s
      then list_setitem s (amplitudes s) channel amplitude
      else Return s)"

text \<open>
  The dictionary \<open>get_channel_info\<close> returns: the two counts, and for the keys
  \<open>'frequencies'\<close> and \<open>'amplitudes'\<close> the objects the attributes refer to, which are
  addresses here.
\<close>

record channel_info =
  info_num_channels :: int
  info_available_channels :: int
  info_frequencies :: addr
  info_amplitudes :: addr

definition get_channel_info :: "state \<Rightarrow> channel_info" where
  "get_channel_info s =
     \<lparr>info_num_channels = num_channels s,
      info_available_channels = available_channels s,
      info_frequencies = frequencies s,
      info_amplitudes = amplitudes s\<rparr>"

definition update_channel :: "state \<Rightarrow> int \<Rightarrow> real option \<Rightarrow> real option \<Rightarrow> outcome" where
  "update_channel s channel frequency amplitude =
     (if 0 \<le> channel \<and> channel < num_channels s
      then (case (case frequency of
                    Some f \<Rightarrow> list_setitem s (frequencies s) channel f
                  | None \<Rightarrow> Return s) of
              Raise e s1 \<Rightarrow> Raise e s1
            | Return s1 \<Rightarrow>
                (case amplitude of
                   Some a \<Rightarrow> list_setitem s1 (amplitudes s1) channel a
                 | None \<Rightarrow> Return s1))
      else Return s)"

definition update_all_channels :: "state \<Rightarrow> real list option \<Rightarrow> real list option \<Rightarrow> state" where
  "update_all_channels s fs as =
     (let s1 = (case fs of
                  Some xs \<Rightarrow>
                    (let (a, s') = new_list (py_slice_to xs (num_channels s)) s
                     in s'\<lparr>frequencies := a\<rparr>)
                | None \<Rightarrow> s)
      in case as of
           Some ys \<Rightarrow>
             (let (a, s') = new_list (py_slice_to ys (num_channels s1)) s1
              in s'\<lparr>amplitudes := a\<rparr>)
         | None \<Rightarrow> s1)"

section \<open>Notions used in the statements\<close>

text \<open>The state a method leaves behind, whether it returned or raised.\<close>

fun state_of :: "outcome \<Rightarrow> state" where
  "state_of (Return s) = s"
| "state_of (Raise e s) = s"

text \<open>
  The two sequences of the store as they stand in a state, and the two sequences a report
  of \<open>get_channel_info\<close> shows when it is read in a state (possibly a later one).
\<close>

definition store_view :: "state \<Rightarrow> real list \<times> real list" where
  "store_view s = (heap s (frequencies s), heap s (amplitudes s))"

definition report_view :: "channel_info \<Rightarrow> state \<Rightarrow> real list \<times> real list" where
  "report_view r s = (heap s (info_frequencies r), heap s (info_amplitudes r))"

text \<open>
  The heap discipline of the model: the two attributes refer to two different list
  objects, both allocated already. Construction establishes it and every method keeps it
  (lemmas \<open>wf_init\<close> to \<open>wf_update_channel\<close> below).
\<close>

definition wf_state :: "state \<Rightarrow> bool" where
  "wf_state s \<longleftrightarrow>
     frequencies s \<noteq> amplitudes s \<and> frequencies s < next_addr s \<and> amplitudes s < next_addr s"

text \<open>
  The renderer as the specification words it, with a start frame index:
  \<open>sample[f][c] = amplitude[c] * sin(2\<pi> * frequency[c] * (startFrameIndex + f) / sampleRate)\<close>.
\<close>

definition spec_render_sample ::
  "real list \<Rightarrow> real list \<Rightarrow> real \<Rightarrow> int \<Rightarrow> nat \<Rightarrow> nat \<Rightarrow> real" where
  "spec_render_sample amps freqs rate start f c =
     amps ! c * sin (2 * pi * freqs ! c * (of_int start + real f) / rate)"

text \<open>
  \<open>updateAllChannels\<close> as the specification words it, for a store of \<open>N\<close> channels:
  an input longer than \<open>N\<close> is cut to its first \<open>N\<close> entries, and a shorter one replaces
  a prefix while the entries above it keep their prior values.
\<close>

definition spec_update_sequence :: "nat \<Rightarrow> real list \<Rightarrow> real list \<Rightarrow> real list" where
  "spec_update_sequence N old xs = take N xs @ drop (length xs) (take N old)"

subsection \<open>Example states\<close>

text \<open>
  A generator of two channels on a device of sixteen; the same after
  \<open>update_all_channels(frequencies=[100])\<close>; and two generators rendering one channel of
  frequency 1 and amplitude 1 at a sample rate of 4, built in different ways.
\<close>

definition stereo :: state where
  "stereo = init (Some 16) 2 44100"

definition short_store :: state where
  "short_store = update_all_channels stereo (Some [100]) None"

definition unit_tone :: state where
  "unit_tone = update_all_channels (init (Some 16) 1 4) (Some [1]) (Some [1])"

definition other_tone :: state where
  "other_tone = update_all_channels (init (Some 1) 3 4) (Some [1]) (Some [1])"

section \<open>Supporting lemmas\<close>

subsection \<open>The example states, evaluated\<close>

lemma stereo_fields:
  "num_channels stereo = 2" "available_channels stereo = 2"
  "frequencies stereo = 0" "amplitudes stereo = 1" "next_addr stereo = 2"
  "heap stereo 0 = [440, 440]" "heap stereo (Suc 0) = [0.5, 0.5]"
  by (simp_all add: stereo_def init_def set_channels_def new_list_def py_repeat_def
      get_max_output_channels_def Let_def numeral_2_eq_2)

lemma short_store_fields:
  "num_channels short_store = 2" "available_channels short_store = 2"
  "heap short_store (frequencies short_store) = [100]"
  "heap short_store (amplitudes short_store) = [0.5, 0.5]"
  by (simp_all add: short_store_def update_all_channels_def new_list_def py_slice_to_def
      stereo_fields Let_def)

lemma unit_tone_fields:
  "sample_rate unit_tone = 4" "available_channels unit_tone = 1" "num_channels unit_tone = 1"
  "heap unit_tone (frequencies unit_tone) = [1]" "heap unit_tone (amplitudes unit_tone) = [1]"
  by (simp_all add: unit_tone_def init_def set_channels_def update_all_channels_def new_list_def
      py_repeat_def py_slice_to_def get_max_output_channels_def Let_def)

lemma other_tone_fields:
  "sample_rate other_tone = 4" "available_channels other_tone = 1" "num_channels other_tone = 3"
  "heap other_tone (frequencies other_tone) = [1]" "heap other_tone (amplitudes other_tone) = [1]"
  by (simp_all add: other_tone_def init_def set_channels_def update_all_channels_def new_list_def
      py_repeat_def py_slice_to_def get_max_output_channels_def Let_def)

subsection \<open>The heap discipline is an invariant\<close>

lemma wf_set_channels: "wf_state (set_channels dev s n)"
  by (simp add: wf_state_def set_channels_def new_list_def get_max_output_channels_def
      print_line_def Let_def split: option.split)

lemma wf_init: "wf_state (init dev n rate)"
  by (simp add: init_def wf_set_channels)

lemma wf_update_all_channels: "wf_state s \<Longrightarrow> wf_state (update_all_channels s fs as)"
  by (auto simp add: wf_state_def update_all_channels_def new_list_def Let_def
      split: option.split)

lemma list_setitem_refs:
  "frequencies (state_of (list_setitem s a i v)) = frequencies s"
  "amplitudes (state_of (list_setitem s a i v)) = amplitudes s"
  "next_addr (state_of (list_setitem s a i v)) = next_addr s"
  by (simp_all add: list_setitem_def split: sum.split)

lemma wf_list_setitem: "wf_state s \<Longrightarrow> wf_state (state_of (list_setitem s a i v))"
  by (simp add: wf_state_def list_setitem_refs)

lemma wf_set_frequency: "wf_state s \<Longrightarrow> wf_state (state_of (set_frequency s c f))"
  by (simp add: set_frequency_def wf_list_setitem)

lemma wf_set_amplitude: "wf_state s \<Longrightarrow> wf_state (state_of (set_amplitude s c a))"
  by (simp add: set_amplitude_def wf_list_setitem)

lemma update_channel_refs:
  "frequencies (state_of (update_channel s c fo ao)) = frequencies s
   \<and> amplitudes (state_of (update_channel s c fo ao)) = amplitudes s
   \<and> next_addr (state_of (update_channel s c fo ao)) = next_addr s"
  by (simp add: update_channel_def list_setitem_def split: option.split sum.split)

lemma wf_update_channel: "wf_state s \<Longrightarrow> wf_state (state_of (update_channel s c fo ao))"
  by (simp add: wf_state_def update_channel_refs)

lemma rebind_keeps_old_lists:
  assumes "a < next_addr s"
  shows "heap (update_all_channels s fs as) a = heap s a"
    and "heap (set_channels dev s m) a = heap s a"
  using assms
  by (auto simp add: update_all_channels_def set_channels_def new_list_def
      get_max_output_channels_def print_line_def Let_def split: option.split)

subsection \<open>The rendering loop\<close>

lemma py_getitem_nat:
  "py_getitem xs (int i) = (if i < length xs then Inr (xs ! i) else Inl IndexError)"
  by (simp add: py_getitem_def py_index_def)

lemma fill_channels_cong:
  "heap s (amplitudes s) = heap s' (amplitudes s') \<Longrightarrow>
   heap s (frequencies s) = heap s' (frequencies s') \<Longrightarrow>
   fill_channels s t is chunk = fill_channels s' t is chunk"
  by (induction "is" arbitrary: chunk) (simp_all split: sum.splits)

lemma generate_chunk_cong:
  assumes "heap s (amplitudes s) = heap s' (amplitudes s')"
    and "heap s (frequencies s) = heap s' (frequencies s')"
    and "available_channels s = available_channels s'"
    and "sample_rate s = sample_rate s'"
  shows "generate_chunk s n = generate_chunk s' n"
  using assms fill_channels_cong [OF assms(1,2)]
  by (simp add: generate_chunk_def Let_def split: sum.splits)

lemma generate_chunk_print_line: "generate_chunk (print_line msg s) n = generate_chunk s n"
  by (rule generate_chunk_cong) (simp_all add: print_line_def)

lemma audio_callback_chunk:
  assumes "generate_chunk s n = Inr chunk"
  shows "fst (audio_callback s outdata n time status) = assign_all outdata chunk
     \<and> generate_chunk (snd (audio_callback s outdata n time status)) n = Inr chunk"
  using assms
  by (cases status) (simp_all add: audio_callback_def generate_chunk_print_line)

text \<open>A channel index without an amplitude or a frequency stops the loop with \<open>IndexError\<close>.\<close>

lemma fill_channels_IndexError:
  "\<exists>i\<in>set is. length (heap s (amplitudes s)) \<le> i \<or> length (heap s (frequencies s)) \<le> i \<Longrightarrow>
   fill_channels s t is chunk = Inl IndexError"
proof (induction "is" arbitrary: chunk)
  case Nil
  then show ?case by simp
next
  case (Cons i "is")
  show ?case
  proof (cases "i < length (heap s (amplitudes s)) \<and> i < length (heap s (frequencies s))")
    case True
    with Cons.prems
    have "\<exists>j\<in>set is. length (heap s (amplitudes s)) \<le> j \<or> length (heap s (frequencies s)) \<le> j"
      by auto
    from Cons.IH [OF this] True show ?thesis
      by (simp add: py_getitem_nat)
  next
    case False
    then show ?thesis by (auto simp add: py_getitem_nat)
  qed
qed

lemma generate_chunk_IndexError:
  assumes "int k < available_channels s" and "0 \<le> n"
    and "length (heap s (amplitudes s)) \<le> k \<or> length (heap s (frequencies s)) \<le> k"
  shows "generate_chunk s n = Inl IndexError"
proof -
  from assms have "\<exists>i\<in>set [0..<nat (available_channels s)].
      length (heap s (amplitudes s)) \<le> i \<or> length (heap s (frequencies s)) \<le> i"
    by (intro bexI [of _ k]) auto
  from fill_channels_IndexError [OF this] assms show ?thesis
    by (simp add: generate_chunk_def np_zeros_def Let_def)
qed

text \<open>With every index in range the loop is a fold of column assignments.\<close>

lemma fill_channels_foldl:
  "\<forall>i\<in>set is. i < length (heap s (amplitudes s)) \<and> i < length (heap s (frequencies s)) \<Longrightarrow>
   fill_channels s t is chunk =
     Inr (foldl (\<lambda>ch i. set_column ch i
            (map (\<lambda>tk. heap s (amplitudes s) ! i * sin (2 * pi * (heap s (frequencies s) ! i) * tk)) t))
          chunk is)"
  by (induction "is" arbitrary: chunk) (simp_all add: py_getitem_nat)

lemma set_column_shape:
  "shape0 (set_column ch i col) = shape0 ch" "shape1 (set_column ch i col) = shape1 ch"
  by (simp_all add: set_column_def)

lemma set_column_length:
  "length col = length (rows ch) \<Longrightarrow> length (rows (set_column ch i col)) = length (rows ch)"
  by (simp add: set_column_def)

lemma set_column_row:
  "length col = length (rows ch) \<Longrightarrow> f < length (rows ch) \<Longrightarrow>
   rows (set_column ch i col) ! f = (rows ch ! f)[i := col ! f]"
  by (simp add: set_column_def)

lemma foldl_set_column_shape:
  fixes col :: "nat \<Rightarrow> real list"
  assumes "\<And>i. length (col i) = length (rows ch)"
  shows "shape0 (foldl (\<lambda>ch i. set_column ch i (col i)) ch is) = shape0 ch
     \<and> shape1 (foldl (\<lambda>ch i. set_column ch i (col i)) ch is) = shape1 ch
     \<and> length (rows (foldl (\<lambda>ch i. set_column ch i (col i)) ch is)) = length (rows ch)"
  using assms
  by (induction "is" rule: rev_induct) (simp_all add: set_column_shape set_column_length)

lemma foldl_set_column_entry:
  fixes col :: "nat \<Rightarrow> real list"
  assumes len: "\<And>i. length (col i) = length (rows ch)"
    and f: "f < length (rows ch)"
  shows "length (rows (foldl (\<lambda>ch i. set_column ch i (col i)) ch is) ! f) = length (rows ch ! f)
     \<and> (c < length (rows ch ! f) \<longrightarrow>
          rows (foldl (\<lambda>ch i. set_column ch i (col i)) ch is) ! f ! c =
            (if c \<in> set is then col c ! f else rows ch ! f ! c))"
proof (induction "is" rule: rev_induct)
  case Nil
  then show ?case by simp
next
  case (snoc i "is")
  let ?ch = "foldl (\<lambda>ch i. set_column ch i (col i)) ch is"
  have l: "length (rows ?ch) = length (rows ch)"
    using foldl_set_column_shape [of col ch "is"] len by simp
  have row: "rows (set_column ?ch i (col i)) ! f = (rows ?ch ! f)[i := col i ! f]"
    using set_column_row [of "col i" ?ch f i] l len f by simp
  from snoc have lf: "length (rows ?ch ! f) = length (rows ch ! f)" by simp
  have "rows (set_column ?ch i (col i)) ! f ! c =
          (if c \<in> set (is @ [i]) then col c ! f else rows ch ! f ! c)"
    if c: "c < length (rows ch ! f)"
  proof (cases "c = i")
    case True
    with c lf row show ?thesis by simp
  next
    case False
    with c lf row snoc show ?thesis by simp
  qed
  with lf row show ?case by simp
qed

lemma generate_chunk_Inr:
  assumes n: "0 \<le> n" and a0: "0 \<le> available_channels s"
    and la: "available_channels s \<le> int (length (heap s (amplitudes s)))"
    and lf: "available_channels s \<le> int (length (heap s (frequencies s)))"
  shows "generate_chunk s n =
     Inr (foldl (\<lambda>ch i. set_column ch i
            (map (\<lambda>tk. heap s (amplitudes s) ! i * sin (2 * pi * (heap s (frequencies s) ! i) * tk))
               (map (\<lambda>k. k / sample_rate s) (np_arange n))))
          \<lparr>shape0 = nat n, shape1 = nat (available_channels s),
           rows = replicate (nat n) (replicate (nat (available_channels s)) 0)\<rparr>
          [0..<nat (available_channels s)])"
proof -
  have "\<forall>i\<in>set [0..<nat (available_channels s)].
          i < length (heap s (amplitudes s)) \<and> i < length (heap s (frequencies s))"
    using la lf by auto
  from fill_channels_foldl [OF this] n a0 show ?thesis
    by (simp add: generate_chunk_def np_zeros_def Let_def)
qed

lemma generate_chunk_entries:
  assumes n: "0 \<le> n" and a0: "0 \<le> available_channels s"
    and la: "available_channels s \<le> int (length (heap s (amplitudes s)))"
    and lf: "available_channels s \<le> int (length (heap s (frequencies s)))"
  shows "\<exists>chunk. generate_chunk s n = Inr chunk
     \<and> shape0 chunk = nat n \<and> shape1 chunk = nat (available_channels s)
     \<and> length (rows chunk) = nat n
     \<and> (\<forall>f<nat n. length (rows chunk ! f) = nat (available_channels s)
          \<and> (\<forall>c<nat (available_channels s).
               rows chunk ! f ! c =
                 heap s (amplitudes s) ! c *
                   sin (2 * pi * (heap s (frequencies s) ! c) * (real f / sample_rate s))))"
proof -
  let ?t = "map (\<lambda>k. k / sample_rate s) (np_arange n)"
  let ?col = "\<lambda>i. map (\<lambda>tk. heap s (amplitudes s) ! i *
                  sin (2 * pi * (heap s (frequencies s) ! i) * tk)) ?t"
  let ?z = "\<lparr>shape0 = nat n, shape1 = nat (available_channels s),
           rows = replicate (nat n) (replicate (nat (available_channels s)) 0)\<rparr>"
  let ?chunk = "foldl (\<lambda>ch i. set_column ch i (?col i)) ?z [0..<nat (available_channels s)]"
  have len: "\<And>i. length (?col i) = length (rows ?z)"
    by (simp add: np_arange_def)
  have eq: "generate_chunk s n = Inr ?chunk"
    by (rule generate_chunk_Inr [OF assms])
  have sh: "shape0 ?chunk = nat n \<and> shape1 ?chunk = nat (available_channels s)
      \<and> length (rows ?chunk) = nat n"
    using foldl_set_column_shape [of ?col ?z "[0..<nat (available_channels s)]"] len by simp
  have ent: "length (rows ?chunk ! f) = nat (available_channels s)
          \<and> (\<forall>c<nat (available_channels s).
               rows ?chunk ! f ! c =
                 heap s (amplitudes s) ! c *
                   sin (2 * pi * (heap s (frequencies s) ! c) * (real f / sample_rate s)))"
    if f: "f < nat n" for f
  proof -
    have f': "f < length (rows ?z)" using f by simp
    have "length (rows ?chunk ! f) = nat (available_channels s)"
      using foldl_set_column_entry [of ?col ?z f "[0..<nat (available_channels s)]", OF len f'] f
      by simp
    moreover have "rows ?chunk ! f ! c =
                 heap s (amplitudes s) ! c *
                   sin (2 * pi * (heap s (frequencies s) ! c) * (real f / sample_rate s))"
      if c: "c < nat (available_channels s)" for c
      using foldl_set_column_entry [of ?col ?z f "[0..<nat (available_channels s)]" c, OF len f'] f c
      by (simp add: np_arange_def)
    ultimately show ?thesis by blast
  qed
  from eq sh ent show ?thesis by blast
qed

section \<open>Rendering: claims C1, C10 and C5\<close>

text \<open>
  C1, as the specification states it, does not hold. The specification lets the sample of
  frame \<open>f\<close> depend on a start frame index, so that the second of two blocks continues the
  phase of the first. \<open>generate_chunk\<close> takes no such index: for the one-channel state
  \<open>unit_tone\<close> (frequency 1, amplitude 1, sample rate 4) a block of one frame is \<open>[[0]]\<close>
  whatever came before it, while the specification's sample at start frame index 1 is
  \<open>sin (\<pi> / 2) = 1\<close>.
\<close>

theorem render_ignores_start_frame:
  "generate_chunk unit_tone 1 = Inr \<lparr>shape0 = 1, shape1 = 1, rows = [[0]]\<rparr>
   \<and> spec_render_sample (heap unit_tone (amplitudes unit_tone))
        (heap unit_tone (frequencies unit_tone)) (sample_rate unit_tone) 1 0 0 = 1
   \<and> generate_chunk unit_tone 1 \<noteq>
        Inr \<lparr>shape0 = 1, shape1 = 1,
             rows = [[spec_render_sample (heap unit_tone (amplitudes unit_tone))
                        (heap unit_tone (frequencies unit_tone)) (sample_rate unit_tone) 1 0 0]]\<rparr>"
  by (simp add: unit_tone_fields generate_chunk_def np_zeros_def np_arange_def set_column_def
      py_getitem_def py_index_def spec_render_sample_def Let_def)

text \<open>
  C1, as it holds. For a frame count \<open>n \<ge> 0\<close>, a sample rate other than zero and a state
  whose first \<open>available_channels\<close> amplitudes and frequencies exist, \<open>generate_chunk\<close>
  returns an \<open>n \<times> available_channels\<close> block whose sample of frame \<open>f\<close> and channel \<open>c\<close> is
  \<open>amplitude[c] * sin(2\<pi> * frequency[c] * f / sample_rate)\<close>: time is counted from the
  first frame of the block that is being rendered. \<open>audio_callback\<close> writes exactly this
  block to \<open>outdata\<close>, whatever its \<open>time\<close> argument is, and keeps no frame counter: the
  next block of the same size is the same block again, so every block starts at phase zero.
\<close>

theorem generate_chunk_block_relative_time:
  assumes "0 \<le> n" and "sample_rate s \<noteq> 0" and "0 \<le> available_channels s"
    and "available_channels s \<le> int (length (heap s (amplitudes s)))"
    and "available_channels s \<le> int (length (heap s (frequencies s)))"
  shows "\<exists>chunk. generate_chunk s n = Inr chunk
     \<and> shape0 chunk = nat n \<and> shape1 chunk = nat (available_channels s)
     \<and> (\<forall>f<nat n. \<forall>c<nat (available_channels s).
           rows chunk ! f ! c =
             heap s (amplitudes s) ! c *
               sin (2 * pi * (heap s (frequencies s) ! c) * real f / sample_rate s))
     \<and> (\<forall>outdata time status.
           fst (audio_callback s outdata n time status) = assign_all outdata chunk
         \<and> generate_chunk (snd (audio_callback s outdata n time status)) n = Inr chunk)"
proof -
  from generate_chunk_entries [OF assms(1,3,4,5)]
  obtain chunk where c: "generate_chunk s n = Inr chunk"
    and sh: "shape0 chunk = nat n" "shape1 chunk = nat (available_channels s)"
    and ent: "\<forall>f<nat n. length (rows chunk ! f) = nat (available_channels s)
          \<and> (\<forall>c<nat (available_channels s).
               rows chunk ! f ! c =
                 heap s (amplitudes s) ! c *
                   sin (2 * pi * (heap s (frequencies s) ! c) * (real f / sample_rate s)))"
    by blast
  from ent have "\<forall>f<nat n. \<forall>c<nat (available_channels s).
           rows chunk ! f ! c =
             heap s (amplitudes s) ! c *
               sin (2 * pi * (heap s (frequencies s) ! c) * real f / sample_rate s)"
    by simp
  with c sh audio_callback_chunk [OF c] show ?thesis by blast
qed

text \<open>
  C1, an instance: two frames of \<open>unit_tone\<close> are \<open>sin 0 = 0\<close> and \<open>sin (\<pi> / 2) = 1\<close>.
\<close>

theorem generate_chunk_block_relative_time_witness:
  "(0::int) \<le> 2 \<and> sample_rate unit_tone \<noteq> 0 \<and> 0 \<le> available_channels unit_tone
   \<and> available_channels unit_tone \<le> int (length (heap unit_tone (amplitudes unit_tone)))
   \<and> available_channels unit_tone \<le> int (length (heap unit_tone (frequencies unit_tone)))
   \<and> (\<exists>chunk. generate_chunk unit_tone 2 = Inr chunk \<and> shape0 chunk = 2 \<and> shape1 chunk = 1
        \<and> rows chunk ! 0 ! 0 = 0 \<and> rows chunk ! 1 ! 0 = 1)"
proof -
  have h: "(0::int) \<le> 2" "sample_rate unit_tone \<noteq> 0" "0 \<le> available_channels unit_tone"
    "available_channels unit_tone \<le> int (length (heap unit_tone (amplitudes unit_tone)))"
    "available_channels unit_tone \<le> int (length (heap unit_tone (frequencies unit_tone)))"
    by (simp_all add: unit_tone_fields)
  from generate_chunk_block_relative_time [OF h]
  obtain chunk where c: "generate_chunk unit_tone 2 = Inr chunk"
    and sh: "shape0 chunk = nat 2" "shape1 chunk = nat (available_channels unit_tone)"
    and ent: "\<forall>f<nat 2. \<forall>c<nat (available_channels unit_tone).
           rows chunk ! f ! c =
             heap unit_tone (amplitudes unit_tone) ! c *
               sin (2 * pi * (heap unit_tone (frequencies unit_tone) ! c) * real f
                    / sample_rate unit_tone)"
    by (elim exE conjE) (rule that)
  from ent have "rows chunk ! 0 ! 0 = 0" "rows chunk ! 1 ! 0 = 1"
    by (simp_all add: unit_tone_fields)
  with c sh h show ?thesis by (simp add: unit_tone_fields)
qed

text \<open>
  C10. Rendering is deterministic: the block \<open>generate_chunk\<close> returns (or the exception
  it raises) is determined by the frequencies, the amplitudes, \<open>available_channels\<close>, the
  sample rate and the frame count. Two states that agree on these, whatever else differs
  between them, give the same result for the same frame count.
\<close>

theorem generate_chunk_deterministic:
  assumes "heap s (frequencies s) = heap s' (frequencies s')"
    and "heap s (amplitudes s) = heap s' (amplitudes s')"
    and "available_channels s = available_channels s'"
    and "sample_rate s = sample_rate s'"
  shows "generate_chunk s n = generate_chunk s' n"
  by (rule generate_chunk_cong [OF assms(2,1,3,4)])

text \<open>
  C10, an instance: \<open>unit_tone\<close> and \<open>other_tone\<close> differ in \<open>num_channels\<close> (and in the
  addresses of their lists) and render the same two frames.
\<close>

theorem generate_chunk_deterministic_witness:
  "heap unit_tone (frequencies unit_tone) = heap other_tone (frequencies other_tone)
   \<and> heap unit_tone (amplitudes unit_tone) = heap other_tone (amplitudes other_tone)
   \<and> available_channels unit_tone = available_channels other_tone
   \<and> sample_rate unit_tone = sample_rate other_tone
   \<and> num_channels unit_tone \<noteq> num_channels other_tone
   \<and> generate_chunk unit_tone 2 = generate_chunk other_tone 2"
proof -
  have h: "heap unit_tone (frequencies unit_tone) = heap other_tone (frequencies other_tone)"
    "heap unit_tone (amplitudes unit_tone) = heap other_tone (amplitudes other_tone)"
    "available_channels unit_tone = available_channels other_tone"
    "sample_rate unit_tone = sample_rate other_tone"
    by (simp_all add: unit_tone_fields other_tone_fields)
  from generate_chunk_deterministic [OF h, of 2] h show ?thesis
    by (simp add: unit_tone_fields other_tone_fields)
qed

text \<open>
  C5. After \<open>update_all_channels\<close> with a frequencies sequence strictly shorter than
  \<open>num_channels\<close>, the stored frequencies have the length of that input, and
  \<open>available_channels\<close> and \<open>num_channels\<close> are what they were; if \<open>available_channels\<close>
  exceeds that length, the next \<open>generate_chunk\<close> (of a frame count \<open>n \<ge> 0\<close>) raises
  \<open>IndexError\<close>. The same holds for a short amplitudes sequence.
\<close>

theorem short_update_breaks_rendering:
  "(int (length xs) < num_channels s \<longrightarrow>
      (let s' = update_all_channels s (Some xs) as in
         length (heap s' (frequencies s')) = length xs
       \<and> available_channels s' = available_channels s
       \<and> num_channels s' = num_channels s
       \<and> (int (length xs) < available_channels s' \<longrightarrow> 0 \<le> n \<longrightarrow>
             generate_chunk s' n = Inl IndexError)))
   \<and> (int (length ys) < num_channels s \<longrightarrow>
      (let s' = update_all_channels s fs (Some ys) in
         length (heap s' (amplitudes s')) = length ys
       \<and> available_channels s' = available_channels s
       \<and> num_channels s' = num_channels s
       \<and> (int (length ys) < available_channels s' \<longrightarrow> 0 \<le> n \<longrightarrow>
             generate_chunk s' n = Inl IndexError)))"
proof -
  have f: "length (heap (update_all_channels s (Some xs) as)
                     (frequencies (update_all_channels s (Some xs) as))) = length xs"
    if "int (length xs) < num_channels s"
    using that
    by (auto simp add: update_all_channels_def new_list_def py_slice_to_def Let_def
        split: option.split)
  have a: "length (heap (update_all_channels s fs (Some ys))
                     (amplitudes (update_all_channels s fs (Some ys)))) = length ys"
    if "int (length ys) < num_channels s"
    using that
    by (auto simp add: update_all_channels_def new_list_def py_slice_to_def Let_def
        split: option.split)
  have keep: "available_channels (update_all_channels s fs' as') = available_channels s
      \<and> num_channels (update_all_channels s fs' as') = num_channels s" for fs' as'
    by (simp add: update_all_channels_def new_list_def Let_def split: option.split)
  show ?thesis
    using f a keep
      generate_chunk_IndexError [of "length xs" "update_all_channels s (Some xs) as" n]
      generate_chunk_IndexError [of "length ys" "update_all_channels s fs (Some ys)" n]
    by (simp add: Let_def)
qed

text \<open>
  C5, an instance: the two-channel generator after \<open>update_all_channels(frequencies=[100])\<close>,
  or after \<open>update_all_channels(amplitudes=[0.3])\<close>, raises \<open>IndexError\<close> on the next block.
\<close>

theorem short_update_breaks_rendering_witness:
  "int (length [100::real]) < num_channels stereo
   \<and> int (length [100::real]) < available_channels (update_all_channels stereo (Some [100]) None)
   \<and> (0::int) \<le> 1
   \<and> length (heap (update_all_channels stereo (Some [100]) None)
               (frequencies (update_all_channels stereo (Some [100]) None))) = 1
   \<and> generate_chunk (update_all_channels stereo (Some [100]) None) 1 = Inl IndexError
   \<and> generate_chunk (update_all_channels stereo None (Some [0.3])) 1 = Inl IndexError"
proof -
  have k: "available_channels (update_all_channels stereo fs as) = 2" for fs as
    by (simp add: update_all_channels_def new_list_def stereo_fields Let_def split: option.split)
  from short_update_breaks_rendering [of "[100]" stereo None 1 "[0.3]" None] k
  show ?thesis
    by (simp add: Let_def stereo_fields)
qed

section \<open>Parameter updates: claims C2, C6 and C7\<close>

text \<open>
  C2, as the specification states it, does not hold. On the two-channel generator
  \<open>stereo\<close>, whose frequencies are \<open>[440, 440]\<close>, \<open>update_all_channels(frequencies=[100])\<close>
  leaves the frequencies \<open>[100]\<close>: the entry at index 1 has not kept its prior value, as
  in the specification's \<open>[100, 440]\<close>, and the stored length is 1, not \<open>num_channels = 2\<close>.
\<close>

theorem short_update_drops_prior_entries:
  "num_channels stereo = 2 \<and> heap stereo (frequencies stereo) = [440, 440]
   \<and> short_store = update_all_channels stereo (Some [100]) None
   \<and> heap short_store (frequencies short_store) = [100]
   \<and> spec_update_sequence 2 (heap stereo (frequencies stereo)) [100] = [100, 440]
   \<and> heap short_store (frequencies short_store)
        \<noteq> spec_update_sequence 2 (heap stereo (frequencies stereo)) [100]
   \<and> int (length (heap short_store (frequencies short_store))) \<noteq> num_channels short_store"
  by (simp add: short_store_fields stereo_fields spec_update_sequence_def)
   (simp add: short_store_def)

text \<open>
  C2, as it holds. For a store of \<open>N = num_channels \<ge> 0\<close> channels, \<open>update_all_channels\<close>
  binds each sequence that is given to a new list of the first \<open>N\<close> entries of the input,
  which is the whole input when that has at most \<open>N\<close> entries: no prior entry is kept,
  and the stored length is the smaller of the input's length and \<open>N\<close>. A sequence that
  is not given stays as it is, and so do \<open>num_channels\<close> and \<open>available_channels\<close>.
\<close>

theorem update_all_channels_replaces_whole:
  assumes "0 \<le> num_channels s" and "wf_state s"
  shows "let s' = update_all_channels s fs as in
       heap s' (frequencies s') =
         (case fs of Some xs \<Rightarrow> take (nat (num_channels s)) xs | None \<Rightarrow> heap s (frequencies s))
     \<and> heap s' (amplitudes s') =
         (case as of Some ys \<Rightarrow> take (nat (num_channels s)) ys | None \<Rightarrow> heap s (amplitudes s))
     \<and> (\<forall>xs. fs = Some xs \<longrightarrow>
           length (heap s' (frequencies s')) = min (length xs) (nat (num_channels s)))
     \<and> (\<forall>ys. as = Some ys \<longrightarrow>
           length (heap s' (amplitudes s')) = min (length ys) (nat (num_channels s)))
     \<and> num_channels s' = num_channels s \<and> available_channels s' = available_channels s"
  using assms
  by (auto simp add: update_all_channels_def new_list_def py_slice_to_def wf_state_def Let_def
      split: option.split)

text \<open>
  C2, instances on \<open>stereo\<close>: a short input is stored as it is, a long one is cut to two
  entries, and the amplitudes, which were not given, are untouched.
\<close>

theorem update_all_channels_replaces_whole_witness:
  "0 \<le> num_channels stereo \<and> wf_state stereo
   \<and> heap (update_all_channels stereo (Some [100]) None)
        (frequencies (update_all_channels stereo (Some [100]) None)) = [100]
   \<and> heap (update_all_channels stereo (Some [100, 200, 300]) None)
        (frequencies (update_all_channels stereo (Some [100, 200, 300]) None)) = [100, 200]
   \<and> heap (update_all_channels stereo (Some [100]) None)
        (amplitudes (update_all_channels stereo (Some [100]) None)) = [0.5, 0.5]"
proof -
  have h: "0 \<le> num_channels stereo" "wf_state stereo"
    by (simp_all add: stereo_fields wf_state_def)
  from update_all_channels_replaces_whole [OF h, of "Some [100]" None]
    update_all_channels_replaces_whole [OF h, of "Some [100, 200, 300]" None] h
  show ?thesis
    by (simp add: Let_def stereo_fields numeral_2_eq_2)
qed

text \<open>
  Where the stored frequencies have an entry at the channel, the range check of
  \<open>set_frequency\<close> is enough: the call returns, and \<open>get_channel_info\<close> then reports the
  new frequency at that channel, and every other frequency, all amplitudes and the two
  counts as they were.
\<close>

lemma set_frequency_in_list_range:
  assumes "0 \<le> c" and "c < num_channels s"
    and "c < int (length (heap s (frequencies s)))"
    and "frequencies s \<noteq> amplitudes s"
  shows "\<exists>s'. set_frequency s c f = Return s'
     \<and> (let info = get_channel_info s' in
          heap s' (info_frequencies info) = (heap s (frequencies s))[nat c := f]
        \<and> heap s' (info_frequencies info) ! nat c = f
        \<and> (\<forall>j. j \<noteq> nat c \<longrightarrow> heap s' (info_frequencies info) ! j = heap s (frequencies s) ! j)
        \<and> heap s' (info_amplitudes info) = heap s (amplitudes s)
        \<and> info_num_channels info = num_channels s
        \<and> info_available_channels info = available_channels s)"
  using assms
  by (simp add: set_frequency_def list_setitem_def py_setitem_def py_index_def
      get_channel_info_def Let_def)

lemma set_frequency_in_list_range_example:
  "0 \<le> (1::int) \<and> 1 < num_channels stereo
   \<and> 1 < int (length (heap stereo (frequencies stereo)))
   \<and> frequencies stereo \<noteq> amplitudes stereo
   \<and> (\<exists>s'. set_frequency stereo 1 880 = Return s'
        \<and> heap s' (info_frequencies (get_channel_info s')) = [440, 880]
        \<and> heap s' (info_amplitudes (get_channel_info s')) = [0.5, 0.5])"
proof -
  have h: "0 \<le> (1::int)" "1 < num_channels stereo"
    "1 < int (length (heap stereo (frequencies stereo)))"
    "frequencies stereo \<noteq> amplitudes stereo"
    by (simp_all add: stereo_fields)
  from set_frequency_in_list_range [OF h, of 880] h show ?thesis
    by (auto simp add: Let_def stereo_fields)
qed

text \<open>
  C6. For every channel index \<open>c\<close> with \<open>0 \<le> c < num_channels\<close>, \<open>set_frequency(c, f)\<close>
  followed by \<open>get_channel_info\<close> is to report \<open>frequencies[c] = f\<close> with everything else
  unchanged. The range check \<open>0 <= channel < self.num_channels\<close> of \<open>set_frequency\<close> is
  there to keep the item assignment inside the list, and its other branch does nothing;
  but it tests \<open>num_channels\<close>, not the length of the list. On \<open>short_store\<close>, the
  two-channel generator after \<open>update_all_channels(frequencies=[100])\<close>, \<open>num_channels\<close> is
  still 2 and the stored frequencies are \<open>[100]\<close>: channel 1 passes the check, and
  \<open>set_frequency(1, 5)\<close> raises \<open>IndexError\<close> instead of storing the value, leaving the
  state as it was.
\<close>

theorem set_frequency_raises_on_short_list:
  "0 \<le> (1::int) \<and> 1 < num_channels short_store
   \<and> heap short_store (frequencies short_store) = [100]
   \<and> set_frequency short_store 1 5 = Raise IndexError short_store"
  by (simp add: short_store_fields set_frequency_def list_setitem_def py_setitem_def
      py_index_def)

text \<open>
  C7. For a channel index outside \<open>[0, num_channels)\<close>, negative ones included, each of
  \<open>set_frequency\<close>, \<open>set_amplitude\<close> and \<open>update_channel\<close> returns without raising and
  leaves the whole state as it was, so that \<open>get_channel_info\<close> reports what it reported
  before.
\<close>

theorem out_of_range_channel_noop:
  "\<not> (0 \<le> c \<and> c < num_channels s) \<Longrightarrow>
     set_frequency s c f = Return s \<and> set_amplitude s c a = Return s
   \<and> update_channel s c fo ao = Return s
   \<and> get_channel_info (state_of (set_frequency s c f)) = get_channel_info s
   \<and> get_channel_info (state_of (set_amplitude s c a)) = get_channel_info s
   \<and> get_channel_info (state_of (update_channel s c fo ao)) = get_channel_info s"
  by (cases "0 \<le> c") (simp_all add: set_frequency_def set_amplitude_def update_channel_def)

text \<open>C7, instances: the channels \<open>-1\<close> and \<open>2\<close> of \<open>stereo\<close>.\<close>

theorem out_of_range_channel_noop_witness:
  "\<not> (0 \<le> (-1::int) \<and> -1 < num_channels stereo)
   \<and> \<not> (0 \<le> (2::int) \<and> 2 < num_channels stereo)
   \<and> set_frequency stereo (-1) 880 = Return stereo \<and> set_amplitude stereo 2 1 = Return stereo
   \<and> update_channel stereo 2 (Some 880) (Some 1) = Return stereo"
proof -
  have h: "\<not> (0 \<le> (-1::int) \<and> -1 < num_channels stereo)"
    "\<not> (0 \<le> (2::int) \<and> 2 < num_channels stereo)"
    by (simp_all add: stereo_fields)
  from out_of_range_channel_noop [OF h(1), of 880 1 None None]
    out_of_range_channel_noop [OF h(2), of 880 1 "Some 880" "Some 1"] h
  show ?thesis by simp
qed

section \<open>The state report: claim C4\<close>

text \<open>
  C4, as the specification states it, does not hold: the report is not a copy. On
  \<open>stereo\<close>, an item assignment to the \<open>frequencies\<close> sequence of a report changes the
  store's frequencies from \<open>[440, 440]\<close> to \<open>[1, 440]\<close>; and a report taken before
  \<open>set_frequency(0, 880)\<close> shows \<open>[880, 440]\<close> after it, where it showed \<open>[440, 440]\<close>.
\<close>

theorem channel_info_is_live:
  "heap stereo (frequencies stereo) = [440, 440]
   \<and> heap (state_of (list_setitem stereo (info_frequencies (get_channel_info stereo)) 0 1))
        (frequencies (state_of (list_setitem stereo (info_frequencies (get_channel_info stereo)) 0 1)))
      = [1, 440]
   \<and> heap stereo (info_frequencies (get_channel_info stereo)) = [440, 440]
   \<and> set_frequency stereo 0 880 = Return (state_of (set_frequency stereo 0 880))
   \<and> heap (state_of (set_frequency stereo 0 880)) (info_frequencies (get_channel_info stereo))
      = [880, 440]"
  by (simp add: stereo_fields get_channel_info_def set_frequency_def list_setitem_def
      py_setitem_def py_index_def)

text \<open>
  C4, as it holds. The report of \<open>get_channel_info\<close> holds \<open>num_channels\<close> and
  \<open>available_channels\<close> as values, and for \<open>frequencies\<close> and \<open>amplitudes\<close> the store's own
  list objects. An item assignment to a returned sequence is an assignment to the store's
  sequence. Read after \<open>set_frequency\<close>, \<open>set_amplitude\<close> or \<open>update_channel\<close>, which assign
  in place, an earlier report shows the store's current sequences. Read after
  \<open>update_all_channels\<close> or \<open>set_channels\<close>, which bind the store to new lists, an earlier
  report shows the sequences as they were when it was taken.
\<close>

theorem channel_info_aliases_store:
  "let r = get_channel_info s in
     info_num_channels r = num_channels s \<and> info_available_channels r = available_channels s
   \<and> info_frequencies r = frequencies s \<and> info_amplitudes r = amplitudes s
   \<and> (py_index (heap s (frequencies s)) i = Some j \<longrightarrow>
        list_setitem s (info_frequencies r) i v =
          Return (s\<lparr>heap := (heap s)(frequencies s := (heap s (frequencies s))[j := v])\<rparr>))
   \<and> (py_index (heap s (amplitudes s)) i = Some j \<longrightarrow>
        list_setitem s (info_amplitudes r) i v =
          Return (s\<lparr>heap := (heap s)(amplitudes s := (heap s (amplitudes s))[j := v])\<rparr>))
   \<and> report_view r (state_of (set_frequency s c f)) = store_view (state_of (set_frequency s c f))
   \<and> report_view r (state_of (set_amplitude s c a)) = store_view (state_of (set_amplitude s c a))
   \<and> report_view r (state_of (update_channel s c fo ao))
        = store_view (state_of (update_channel s c fo ao))
   \<and> (wf_state s \<longrightarrow>
        report_view r (update_all_channels s fs as) = store_view s
      \<and> report_view r (set_channels dev s m) = store_view s)"
proof -
  have inplace: "frequencies (state_of (set_frequency s c f)) = frequencies s"
    "amplitudes (state_of (set_frequency s c f)) = amplitudes s"
    "frequencies (state_of (set_amplitude s c a)) = frequencies s"
    "amplitudes (state_of (set_amplitude s c a)) = amplitudes s"
    by (simp_all add: set_frequency_def set_amplitude_def list_setitem_refs)
  have rebind: "heap (update_all_channels s fs as) (frequencies s) = heap s (frequencies s)"
    "heap (update_all_channels s fs as) (amplitudes s) = heap s (amplitudes s)"
    "heap (set_channels dev s m) (frequencies s) = heap s (frequencies s)"
    "heap (set_channels dev s m) (amplitudes s) = heap s (amplitudes s)"
    if "wf_state s"
    using that rebind_keeps_old_lists [of "frequencies s" s]
      rebind_keeps_old_lists [of "amplitudes s" s]
    by (simp_all add: wf_state_def)
  have setf: "list_setitem s (frequencies s) i v =
          Return (s\<lparr>heap := (heap s)(frequencies s := (heap s (frequencies s))[j := v])\<rparr>)"
    if "py_index (heap s (frequencies s)) i = Some j"
    using that by (simp add: list_setitem_def py_setitem_def)
  have seta: "list_setitem s (amplitudes s) i v =
          Return (s\<lparr>heap := (heap s)(amplitudes s := (heap s (amplitudes s))[j := v])\<rparr>)"
    if "py_index (heap s (amplitudes s)) i = Some j"
    using that by (simp add: list_setitem_def py_setitem_def)
  show ?thesis
    using inplace rebind setf seta update_channel_refs [of s c fo ao]
    by (simp add: get_channel_info_def report_view_def store_view_def Let_def)
qed

text \<open>
  C4, instances on \<open>stereo\<close>: an assignment through the report reaches the store, a report
  follows \<open>set_frequency\<close>, and a report does not follow \<open>update_all_channels\<close>.
\<close>

theorem channel_info_aliases_store_witness:
  "py_index (heap stereo (frequencies stereo)) 0 = Some 0 \<and> wf_state stereo
   \<and> store_view stereo = ([440, 440], [0.5, 0.5])
   \<and> store_view (state_of (list_setitem stereo (info_frequencies (get_channel_info stereo)) 0 1))
        = ([1, 440], [0.5, 0.5])
   \<and> report_view (get_channel_info stereo) (state_of (set_frequency stereo 0 880))
        = store_view (state_of (set_frequency stereo 0 880))
   \<and> report_view (get_channel_info stereo) (update_all_channels stereo (Some [1, 2]) None)
        = ([440, 440], [0.5, 0.5])"
proof -
  have h: "py_index (heap stereo (frequencies stereo)) 0 = Some 0" "wf_state stereo"
    by (simp_all add: stereo_fields py_index_def wf_state_def)
  have v: "store_view stereo = ([440, 440], [0.5, 0.5])"
    by (simp add: store_view_def stereo_fields)
  note t = channel_info_aliases_store
    [of stereo 0 0 1 0 880 0 None None "Some [1, 2]" None None 0]
  from t h have a: "list_setitem stereo (info_frequencies (get_channel_info stereo)) 0 1 =
      Return (stereo\<lparr>heap := (heap stereo)
                (frequencies stereo := (heap stereo (frequencies stereo))[0 := 1])\<rparr>)"
    by (simp add: Let_def get_channel_info_def)
  from t have b: "report_view (get_channel_info stereo) (state_of (set_frequency stereo 0 880))
        = store_view (state_of (set_frequency stereo 0 880))"
    by (simp add: Let_def)
  from t h
  have c: "report_view (get_channel_info stereo) (update_all_channels stereo (Some [1, 2]) None)
        = store_view stereo"
    by (simp add: Let_def)
  from a
  have a': "store_view (state_of
               (list_setitem stereo (info_frequencies (get_channel_info stereo)) 0 1))
        = ([1, 440], [0.5, 0.5])"
    by (simp add: store_view_def stereo_fields)
  from h v a' b c show ?thesis by simp
qed

section \<open>Channel configuration: claims C9, C3 and C8\<close>

text \<open>
  C9. For every \<open>m\<close> and every store, after \<open>set_channels(m)\<close> the report of
  \<open>get_channel_info\<close> has \<open>num_channels = m\<close>, frequencies that are \<open>m\<close> times the default
  440 and amplitudes that are \<open>m\<close> times the default 0.5 (no entries for \<open>m \<le> 0\<close>), and,
  when the device query succeeds and reports \<open>d\<close> channels,
  \<open>available_channels = min(m, d)\<close>, which is at most \<open>m\<close>.
\<close>

theorem set_channels_resets:
  "let s' = set_channels dev s m; info = get_channel_info s' in
     info_num_channels info = m
   \<and> heap s' (info_frequencies info) = replicate (nat m) 440
   \<and> heap s' (info_amplitudes info) = replicate (nat m) 0.5
   \<and> (0 \<le> m \<longrightarrow> int (length (heap s' (info_frequencies info))) = m
                \<and> int (length (heap s' (info_amplitudes info))) = m)
   \<and> (\<forall>d. dev = Some d \<longrightarrow>
         info_available_channels info = min m d \<and> info_available_channels info \<le> m)"
  by (auto simp add: set_channels_def new_list_def py_repeat_def get_max_output_channels_def
      print_line_def get_channel_info_def Let_def split: option.split)

text \<open>
  C9, an instance: \<open>set_channels(2)\<close> on a generator of eight channels, on a device of
  sixteen.
\<close>

theorem set_channels_resets_witness:
  "(0::int) \<le> 2
   \<and> num_channels (init (Some 16) 8 44100) = 8
   \<and> info_num_channels (get_channel_info (set_channels (Some 16) (init (Some 16) 8 44100) 2)) = 2
   \<and> heap (set_channels (Some 16) (init (Some 16) 8 44100) 2)
        (info_frequencies (get_channel_info (set_channels (Some 16) (init (Some 16) 8 44100) 2)))
      = [440, 440]
   \<and> heap (set_channels (Some 16) (init (Some 16) 8 44100) 2)
        (info_amplitudes (get_channel_info (set_channels (Some 16) (init (Some 16) 8 44100) 2)))
      = [0.5, 0.5]
   \<and> info_available_channels
        (get_channel_info (set_channels (Some 16) (init (Some 16) 8 44100) 2)) = 2"
proof -
  have n8: "num_channels (init (Some 16) 8 44100) = 8"
    by (simp add: init_def set_channels_def new_list_def get_max_output_channels_def Let_def)
  from set_channels_resets [of "Some 16" "init (Some 16) 8 44100" 2] n8
  show ?thesis
    by (simp add: Let_def numeral_2_eq_2)
qed

text \<open>
  C3. The invariant \<open>0 \<le> available_channels \<le> num_channels\<close> is what the successful
  query path keeps, by its \<open>min\<close>, and what \<open>generate_chunk\<close> relies on. The fallback path
  returns 2 without the \<open>min\<close>: a generator constructed with one channel while the device
  query fails has \<open>available_channels = 2 > 1 = num_channels\<close>, and its first block raises
  \<open>IndexError\<close>. The same happens on \<open>set_channels(1)\<close> of an existing generator.
\<close>

theorem fallback_exceeds_num_channels:
  "num_channels (init None 1 44100) = 1 \<and> available_channels (init None 1 44100) = 2
   \<and> \<not> available_channels (init None 1 44100) \<le> num_channels (init None 1 44100)
   \<and> generate_chunk (init None 1 44100) 1 = Inl IndexError
   \<and> num_channels (set_channels None stereo 1) = 1
   \<and> available_channels (set_channels None stereo 1) = 2"
  by (simp add: init_def set_channels_def new_list_def get_max_output_channels_def print_line_def
      py_repeat_def generate_chunk_def np_zeros_def np_arange_def py_getitem_def py_index_def
      set_column_def Let_def numeral_2_eq_2)

text \<open>
  C8. When the device query fails, \<open>get_max_output_channels\<close> returns the value 2 and
  prints the warning, whatever the requested channel count is; the function has no
  failure result, and \<open>set_channels\<close> and the constructor store the 2 as
  \<open>available_channels\<close>.
\<close>

theorem fallback_two_channels:
  "get_max_output_channels None s =
     (2, s\<lparr>stdout := stdout s @ [''Error querying audio devices. Falling back to 2 channels.'']\<rparr>)
   \<and> available_channels (set_channels None s n) = 2
   \<and> num_channels (set_channels None s n) = n
   \<and> available_channels (init None n rate) = 2"
  by (simp add: get_max_output_channels_def print_line_def set_channels_def init_def
      new_list_def Let_def)

end
